theory Spec2Isabelle
  imports Main
begin

section \<open>Run-time values\<close>

text \<open>
  The module handles decoded JSON payloads of unknown shape (the TypeScript type \<open>any\<close>).
  A value is one of JavaScript's: \<open>undefined\<close>, \<open>null\<close>, a boolean, a number, a string, an
  array, a plain object, or a built-in function (the only one a payload read can reach is
  \<open>Array.prototype.reverse\<close>, through \<open>d.reverse\<close> on an array).

  Strings are lists of code units below U+0100 (Latin-1), so they hold no surrogate and
  \<open>encodeURIComponent\<close> cannot raise on them. A number is kept as the text \<open>String(n)\<close>
  prints for it (\<open>Num ''15169''\<close>, \<open>Num ''37.751''\<close>, \<open>Num ''0''\<close>): the module only tests payload
  numbers for truthiness, prints them and passes them on. An object is an association list
  in which the first binding of a key is the one in force.
\<close>

datatype jsval =
    Undefined
  | Null
  | Bool bool
  | Num string
  | Str string
  | Arr "jsval list"
  | Obj "(string \<times> jsval) list"
  | Native string

datatype error = TypeError | InvalidEmail | RequestFailed | TransportFailure | SyntaxError

fun nullish :: "jsval \<Rightarrow> bool" where
  "nullish Undefined = True"
| "nullish Null = True"
| "nullish _ = False"

text \<open>\<open>Boolean(v)\<close>, the test behind \<open>!v\<close>, \<open>v || w\<close>, \<open>if (v)\<close> and \<open>filter(Boolean)\<close>.\<close>

fun truthy :: "jsval \<Rightarrow> bool" where
  "truthy Undefined = False"
| "truthy Null = False"
| "truthy (Bool b) = b"
| "truthy (Num n) = (n \<noteq> ''0'' \<and> n \<noteq> ''NaN'')"
| "truthy (Str s) = (s \<noteq> [])"
| "truthy (Arr _) = True"
| "truthy (Obj _) = True"
| "truthy (Native _) = True"

text \<open>\<open>v || w\<close> on values.\<close>

definition or_js :: "jsval \<Rightarrow> jsval \<Rightarrow> jsval" where
  "or_js v w = (if truthy v then v else w)"

text \<open>
  \<open>member v k\<close> is \<open>v.k\<close> for a value \<open>v\<close> that is neither \<open>undefined\<close> nor \<open>null\<close>, for the
  keys the module reads on payloads (\<open>status\<close>, \<open>query\<close>, \<open>city\<close>, \<open>regionName\<close>, \<open>country\<close>,
  \<open>lat\<close>, \<open>lon\<close>, \<open>isp\<close>, \<open>org\<close>, \<open>as\<close>, \<open>reverse\<close>, \<open>timezone\<close>, \<open>success\<close>, \<open>ip\<close>, \<open>region\<close>,
  \<open>latitude\<close>, \<open>longitude\<close>, \<open>connection\<close>, \<open>asn\<close>, \<open>id\<close>, \<open>Answer\<close>, \<open>data\<close>, \<open>login\<close>,
  \<open>username\<close>, \<open>name\<close>, \<open>items\<close>, \<open>display_name\<close>). Of these only \<open>reverse\<close> is
  inherited from a prototype, by arrays.
\<close>

fun member :: "jsval \<Rightarrow> string \<Rightarrow> jsval" where
  "member (Obj kvs) k = (case map_of kvs k of Some v \<Rightarrow> v | None \<Rightarrow> Undefined)"
| "member (Arr xs) k = (if k = ''reverse'' then Native ''reverse'' else Undefined)"
| "member _ k = Undefined"

text \<open>\<open>v.k\<close>: reading a property of \<open>undefined\<close> or \<open>null\<close> raises a TypeError.\<close>

definition get :: "jsval \<Rightarrow> string \<Rightarrow> error + jsval" where
  "get v k = (if nullish v then Inl TypeError else Inr (member v k))"


section \<open>Strings\<close>

definition code :: "char \<Rightarrow> nat" where
  "code c = of_char c"

text \<open>\<open>\d\<close>.\<close>

definition is_digit :: "char \<Rightarrow> bool" where
  "is_digit c = (48 \<le> code c \<and> code c \<le> 57)"

text \<open>
  \<open>\s\<close>, and what \<open>trim\<close> strips: TAB, LF, VT, FF, CR, SP and NBSP are the white space and
  line terminators below U+0100.
\<close>

definition is_space :: "char \<Rightarrow> bool" where
  "is_space c =
     (code c = 9 \<or> code c = 10 \<or> code c = 11 \<or> code c = 12 \<or> code c = 13 \<or> code c = 32 \<or>
      code c = 160)"

text \<open>What \<open>.\<close> refuses: LF and CR.\<close>

definition line_terminator :: "char \<Rightarrow> bool" where
  "line_terminator c = (code c = 10 \<or> code c = 13)"

definition trim :: "string \<Rightarrow> string" where
  "trim s = rev (dropWhile is_space (rev (dropWhile is_space s)))"

text \<open>Below U+0100 the capitals are A to Z and U+00C0 to U+00DE without the sign U+00D7.\<close>

definition lower_char :: "char \<Rightarrow> char" where
  "lower_char c =
     (let n = code c
      in if (65 \<le> n \<and> n \<le> 90) \<or> (192 \<le> n \<and> n \<le> 222 \<and> n \<noteq> 215)
         then char_of (n + 32) else c)"

definition toLowerCase :: "string \<Rightarrow> string" where
  "toLowerCase s = map lower_char s"

text \<open>\<open>s.includes(t)\<close>.\<close>

fun "includes" :: "string \<Rightarrow> string \<Rightarrow> bool" where
  "includes [] t = (t = [])"
| "includes (c # cs) t = (take (length t) (c # cs) = t \<or> includes cs t)"

text \<open>\<open>s.split(sep)\<close> for a separator of one character: never an empty list.\<close>

fun split :: "char \<Rightarrow> string \<Rightarrow> string list" where
  "split sep [] = [[]]"
| "split sep (c # cs) =
     (if c = sep then [] # split sep cs
      else (c # hd (split sep cs)) # tl (split sep cs))"

text \<open>\<open>s.replace(/\.$/, '')\<close>.\<close>

definition strip_dot :: "string \<Rightarrow> string" where
  "strip_dot s = (if s \<noteq> [] \<and> last s = CHR ''.'' then butlast s else s)"

text \<open>
  \<open>s.replace(/^"|"$/g, '')\<close>: the global replace removes a quote at the start, then a quote
  at the end of what is left.
\<close>

definition strip_quotes :: "string \<Rightarrow> string" where
  "strip_quotes s =
     (let s1 = (case s of [] \<Rightarrow> [] | c # cs \<Rightarrow> if c = CHR 0x22 then cs else s)
      in if s1 \<noteq> [] \<and> last s1 = CHR 0x22 then butlast s1 else s1)"

text \<open>
  \<open>parseInt(ds, 10)\<close> on a text of decimal digits: the integer the digits denote (the
  number JavaScript returns is this integer as a double, the same up to \<open>2^53\<close>).
\<close>

definition parseInt10 :: "string \<Rightarrow> nat" where
  "parseInt10 ds = foldl (\<lambda>n c. 10 * n + (code c - 48)) 0 ds"






subsection \<open>Conversion to text\<close>

text \<open>
  \<open>String(v)\<close>, also what a template literal and \<open>RegExp.exec\<close> apply to their argument.
  An array prints its elements separated by commas, \<open>undefined\<close> and \<open>null\<close> elements as
  nothing. A plain object prints as \<open>[object Object]\<close> through the inherited \<open>toString\<close>;
  when the payload gave it a property \<open>toString\<close> of its own, which is never callable, the
  conversion raises a TypeError.
\<close>

fun commas :: "(error + string) list \<Rightarrow> error + string" where
  "commas [] = Inr []"
| "commas [x] = x"
| "commas (x # y # ys) =
     (case x of Inl e \<Rightarrow> Inl e
      | Inr s \<Rightarrow> (case commas (y # ys) of Inl e \<Rightarrow> Inl e | Inr t \<Rightarrow> Inr (s @ '','' @ t)))"

fun to_string :: "jsval \<Rightarrow> error + string" where
  "to_string Undefined = Inr ''undefined''"
| "to_string Null = Inr ''null''"
| "to_string (Bool b) = Inr (if b then ''true'' else ''false'')"
| "to_string (Num n) = Inr n"
| "to_string (Str s) = Inr s"
| "to_string (Arr xs) = commas (map (\<lambda>x. if nullish x then Inr [] else to_string x) xs)"
| "to_string (Obj kvs) =
     (if map_of kvs ''toString'' = None then Inr ''[object Object]'' else Inl TypeError)"
| "to_string (Native n) = Inr (''function '' @ n @ ''() { [native code] }'')"

subsection \<open>Regular expressions\<close>

text \<open>
  A backtracking matcher tries the alternatives of a greedy quantifier from the longest
  to the shortest and keeps the first that lets the rest of the pattern match.
  \<open>plus_greedy p s\<close> lists the ways \<open>X+\<close> can match at the front of \<open>s\<close> (what it takes, what
  it leaves) in that order, for a class \<open>X\<close> with members \<open>p\<close>; \<open>opt_dot s\<close> lists what \<open>\.?\<close>
  can leave.
\<close>

fun first_some :: "('a \<Rightarrow> 'b option) \<Rightarrow> 'a list \<Rightarrow> 'b option" where
  "first_some f [] = None"
| "first_some f (x # xs) = (case f x of Some y \<Rightarrow> Some y | None \<Rightarrow> first_some f xs)"

definition plus_greedy :: "(char \<Rightarrow> bool) \<Rightarrow> string \<Rightarrow> (string \<times> string) list" where
  "plus_greedy p s = map (\<lambda>n. (take n s, drop n s)) (rev [1..<Suc (length (takeWhile p s))])"

definition opt_dot :: "string \<Rightarrow> string list" where
  "opt_dot s = (case s of [] \<Rightarrow> [s] | c # cs \<Rightarrow> if c = CHR ''.'' then [cs, s] else [s])"

text \<open>
  \<open>/^(\d+)\s+(.+)\.?$/.exec(s)\<close>: the two groups \<open>m[1]\<close> and \<open>m[2]\<close> of the match, or
  \<open>None\<close> for \<open>null\<close>.
\<close>

definition mx_exec :: "string \<Rightarrow> (string \<times> string) option" where
  "mx_exec s =
     first_some (\<lambda>(m1, r1).
       first_some (\<lambda>(ws, r2).
         first_some (\<lambda>(m2, r3).
           first_some (\<lambda>r4. if r4 = [] then Some (m1, m2) else None) (opt_dot r3))
           (plus_greedy (\<lambda>c. \<not> line_terminator c) r2))
         (plus_greedy is_space r1))
       (plus_greedy is_digit s)"

text \<open>
  \<open>/p=([^;\s]+)/i.exec(s)?.[1]\<close>: the pattern is tried at each position from the left;
  \<open>p\<close> matches either case, and the group takes the longest run of characters other than
  \<open>;\<close> and white space.
\<close>

definition policy_here :: "string \<Rightarrow> string option" where
  "policy_here s =
     (case s of
        c1 # c2 # r \<Rightarrow>
          if (c1 = CHR ''p'' \<or> c1 = CHR ''P'') \<and> c2 = CHR ''=''
          then first_some (\<lambda>(v, _). Some v) (plus_greedy (\<lambda>c. c \<noteq> CHR '';'' \<and> \<not> is_space c) r)
          else None
      | _ \<Rightarrow> None)"

fun policy_exec :: "string \<Rightarrow> string option" where
  "policy_exec [] = None"
| "policy_exec (c # cs) =
     (case policy_here (c # cs) of Some v \<Rightarrow> Some v | None \<Rightarrow> policy_exec cs)"

section \<open>Records of the module\<close>

record mx_record =
  priority :: nat
  exchange :: string

text \<open>
  An optional field is an \<open>option\<close>; for \<open>dmarc?: string | null\<close> the value \<open>None\<close> stands for
  both \<open>null\<close> and a missing field. The address lists hold whatever truthy \<open>data\<close> values
  the answers carried. The field \<open>a\<close> is named \<open>a_list\<close>.
\<close>

record DomainLookup =
  domain :: string
  a_list :: "jsval list option"
  aaaa :: "jsval list option"
  mx :: "mx_record list option"
  ns :: "string list option"
  "txt" :: "string list option"
  dmarc :: "string option"
  spf :: "bool option"
  rdap :: "jsval option"

record EmailLookup =
  email :: string
  emailDomain :: string
  hasMX :: bool
  hasSPF :: bool
  hasDMARC :: bool
  dmarcPolicy :: "string option"
  txtSamples :: "string list option"

record UsernameProfile =
  platform :: string
  exists :: bool
  url :: string
  data :: "jsval option"


datatype RiskLevel = low | medium | high

section \<open>The network\<close>

text \<open>
  A request names the endpoint and the argument its URL is built from:
  \<open>IpApi ip\<close> is \<open>https://ip-api.com/json/<ip>?fields=...\<close>, \<open>IpWho ip\<close> is
  \<open>https://ipwho.is/<ip>\<close>, \<open>DoH name type\<close> is
  \<open>https://dns.google/resolve?name=<name>&type=<type>\<close>, \<open>Rdap domain\<close> is
  \<open>https://rdap.org/domain/<domain>\<close>, and \<open>GitHubUser\<close>, \<open>GitLabUsers\<close>, \<open>RedditAbout\<close>,
  \<open>StackUsers\<close> are the four account endpoints. The upstream servers are a function from
  requests to responses: no answer at all (\<open>fetch\<close> rejects), or a status that is in the
  success range or not, with a body that decodes as JSON or does not.
\<close>

datatype request =
    IpApi string
  | IpWho string
  | DoH string string
  | Rdap string
  | GitHubUser string
  | GitLabUsers string
  | RedditAbout string
  | StackUsers string

datatype response =
    Unreachable
  | Response bool "jsval option"

type_synonym net = "request \<Rightarrow> response"

text \<open>Every function that reaches the network takes the list of the requests issued so
  far and returns it extended.\<close>

definition fetchJSON :: "net \<Rightarrow> request \<Rightarrow> request list \<Rightarrow> (error + jsval) \<times> request list" where
  "fetchJSON net req log =
     ((case net req of
         Unreachable \<Rightarrow> Inl TransportFailure
       | Response ok body \<Rightarrow>
           if \<not> ok then Inl RequestFailed
           else (case body of None \<Rightarrow> Inl SyntaxError | Some v \<Rightarrow> Inr v)),
      log @ [req])"

section \<open>Domain lookup\<close>

text \<open>\<open>json.Answer || []\<close>, and \<open>[]\<close> for whatever the \<open>try\<close> block raises.\<close>

definition dohResolve :: "net \<Rightarrow> string \<Rightarrow> string \<Rightarrow> request list \<Rightarrow> jsval \<times> request list" where
  "dohResolve net name type log =
     (case fetchJSON net (DoH name type) log of
        (Inl _, log') \<Rightarrow> (Arr [], log')
      | (Inr json, log') \<Rightarrow>
          (case get json ''Answer'' of
             Inl _ \<Rightarrow> (Arr [], log')
           | Inr answer \<Rightarrow> (or_js answer (Arr []), log')))"

text \<open>Sequencing: an exception raised by the first computation is the result.\<close>

definition bind_err :: "error + 'a \<Rightarrow> ('a \<Rightarrow> error + 'b) \<Rightarrow> error + 'b" where
  "bind_err r f = (case r of Inl e \<Rightarrow> Inl e | Inr x \<Rightarrow> f x)"

text \<open>\<open>xs.map(f)\<close> for a callback that may raise: the first exception ends the loop.\<close>

fun js_map :: "('a \<Rightarrow> error + 'b) \<Rightarrow> 'a list \<Rightarrow> error + 'b list" where
  "js_map f [] = Inr []"
| "js_map f (x # xs) =
     (case f x of Inl e \<Rightarrow> Inl e
      | Inr y \<Rightarrow> (case js_map f xs of Inl e \<Rightarrow> Inl e | Inr ys \<Rightarrow> Inr (y # ys)))"

text \<open>The receiver of \<open>.map\<close>: on anything but an array \<open>v.map\<close> is not a function, and
  the call raises a TypeError.\<close>

fun as_array :: "jsval \<Rightarrow> error + jsval list" where
  "as_array (Arr xs) = Inr xs"
| "as_array _ = Inl TypeError"

text \<open>\<open>answers.map((r) => r.data).filter(Boolean)\<close>, for A and AAAA.\<close>

definition parseData :: "jsval \<Rightarrow> error + jsval list" where
  "parseData answers =
     (case as_array answers of Inl e \<Rightarrow> Inl e
      | Inr xs \<Rightarrow>
          (case js_map (\<lambda>r. get r ''data'') xs of Inl e \<Rightarrow> Inl e
           | Inr ds \<Rightarrow> Inr (filter truthy ds)))"

text \<open>The callback of the MX \<open>map\<close>: a pair, or \<open>None\<close> for \<open>null\<close>.\<close>

definition parseMXAnswer :: "jsval \<Rightarrow> error + mx_record option" where
  "parseMXAnswer r =
     (case get r ''data'' of Inl e \<Rightarrow> Inl e
      | Inr d \<Rightarrow>
          (case to_string d of Inl e \<Rightarrow> Inl e
           | Inr s \<Rightarrow>
               Inr (case mx_exec s of
                      None \<Rightarrow> None
                    | Some (m1, m2) \<Rightarrow>
                        Some \<lparr>priority = parseInt10 m1, exchange = strip_dot m2\<rparr>)))"

definition parseMX :: "jsval \<Rightarrow> error + mx_record list" where
  "parseMX answers =
     (case as_array answers of Inl e \<Rightarrow> Inl e
      | Inr xs \<Rightarrow>
          (case js_map parseMXAnswer xs of Inl e \<Rightarrow> Inl e
           | Inr ms \<Rightarrow> Inr (map the (filter (\<lambda>m. m \<noteq> None) ms))))"

text \<open>\<open>ns.map((r) => String(r.data).replace(/\.$/, '')).filter(Boolean)\<close>.\<close>

definition parseNS :: "jsval \<Rightarrow> error + string list" where
  "parseNS answers =
     (case as_array answers of Inl e \<Rightarrow> Inl e
      | Inr xs \<Rightarrow>
          (case js_map (\<lambda>r. case get r ''data'' of Inl e \<Rightarrow> Inl e
                            | Inr d \<Rightarrow> (case to_string d of Inl e \<Rightarrow> Inl e
                                        | Inr s \<Rightarrow> Inr (strip_dot s))) xs of
             Inl e \<Rightarrow> Inl e
           | Inr ts \<Rightarrow> Inr (filter (\<lambda>t. t \<noteq> []) ts)))"

definition parseTXT :: "jsval \<Rightarrow> error + string list" where
  "parseTXT answers =
     (case as_array answers of Inl e \<Rightarrow> Inl e
      | Inr xs \<Rightarrow>
          (case js_map (\<lambda>r. case get r ''data'' of Inl e \<Rightarrow> Inl e
                            | Inr (Str s) \<Rightarrow> Inr (strip_quotes s)
                            | Inr _ \<Rightarrow> Inr []) xs of
             Inl e \<Rightarrow> Inl e
           | Inr ts \<Rightarrow> Inr (filter (\<lambda>t. t \<noteq> []) ts)))"

text \<open>The object literal \<open>out\<close> of lookupDomain: its members are computed in the order
  written, and the first exception leaves the function.\<close>

definition parseDomain ::
  "string \<Rightarrow> jsval \<Rightarrow> jsval \<Rightarrow> jsval \<Rightarrow> jsval \<Rightarrow> jsval \<Rightarrow> jsval \<Rightarrow> jsval \<Rightarrow> error + DomainLookup" where
  "parseDomain domain0 aAns aaaaAns mxAns nsAns txtAns dmarcTxt rdap0 =
     bind_err (parseData aAns) (\<lambda>a'.
     bind_err (parseData aaaaAns) (\<lambda>aaaa'.
     bind_err (parseMX mxAns) (\<lambda>mx'.
     bind_err (parseNS nsAns) (\<lambda>ns'.
     bind_err (parseTXT txtAns) (\<lambda>txt'.
     bind_err (parseTXT dmarcTxt) (\<lambda>dmarcs.
     bind_err (parseTXT txtAns) (\<lambda>txt2.
       Inr \<lparr>domain = domain0, a_list = Some a', aaaa = Some aaaa', mx = Some mx',
            ns = Some ns', txt = Some txt',
            dmarc = find (\<lambda>t. includes (toLowerCase t) ''v=dmarc'') dmarcs,
            spf = Some (list_ex (\<lambda>t. includes (toLowerCase t) ''v=spf1'') txt2),
            rdap = Some rdap0\<rparr>)))))))"

text \<open>The seven calls are all issued before any answer is looked at; the RDAP call
  turns its failure into \<open>null\<close>.\<close>

definition lookupDomain ::
  "net \<Rightarrow> string \<Rightarrow> request list \<Rightarrow> (error + DomainLookup) \<times> request list" where
  "lookupDomain net domain0 log =
     (let (aAns, log1) = dohResolve net domain0 ''A'' log;
          (aaaaAns, log2) = dohResolve net domain0 ''AAAA'' log1;
          (mxAns, log3) = dohResolve net domain0 ''MX'' log2;
          (nsAns, log4) = dohResolve net domain0 ''NS'' log3;
          (txtAns, log5) = dohResolve net domain0 ''TXT'' log4;
          (dmarcTxt, log6) = dohResolve net (''_dmarc.'' @ domain0) ''TXT'' log5;
          (rdap0, log7) =
            (case fetchJSON net (Rdap domain0) log6 of
               (Inl _, l) \<Rightarrow> (Null, l)
             | (Inr v, l) \<Rightarrow> (v, l))
      in (parseDomain domain0 aAns aaaaAns mxAns nsAns txtAns dmarcTxt rdap0, log7))"

section \<open>Email lookup\<close>

text \<open>
  \<open>email.split('@')[1]?.trim().toLowerCase()\<close> is \<open>undefined\<close> when the split has no second
  segment; \<open>!domain\<close> holds for \<open>undefined\<close> and for the empty string.
\<close>

definition lookupEmail ::
  "net \<Rightarrow> string \<Rightarrow> request list \<Rightarrow> (error + EmailLookup) \<times> request list" where
  "lookupEmail net email0 log =
     (let domain0 = (case split CHR ''@'' email0 of
                       _ # seg # _ \<Rightarrow> Some (toLowerCase (trim seg))
                     | _ \<Rightarrow> None)
      in case domain0 of
           None \<Rightarrow> (Inl InvalidEmail, log)
         | Some d \<Rightarrow>
             if d = [] then (Inl InvalidEmail, log)
             else
               (case lookupDomain net d log of
                  (Inl e, log') \<Rightarrow> (Inl e, log')
                | (Inr dm, log') \<Rightarrow>
                    (Inr \<lparr>email = email0, emailDomain = d,
                          hasMX = ((case mx dm of None \<Rightarrow> 0 | Some ms \<Rightarrow> length ms) > 0),
                          hasSPF = (spf dm = Some True),
                          hasDMARC = (case dmarc dm of None \<Rightarrow> False | Some t \<Rightarrow> t \<noteq> []),
                          dmarcPolicy =
                            (case dmarc dm of None \<Rightarrow> None
                             | Some t \<Rightarrow> if t \<noteq> [] then policy_exec t else None),
                          txtSamples = map_option (take 5) (txt dm)\<rparr>,
                     log')))"



section \<open>IP lookup\<close>

text \<open>
  The two requests are joined with \<open>Promise.allSettled\<close>: a settled outcome is \<open>Inr\<close> the
  decoded payload when fulfilled and \<open>Inl\<close> the reason when rejected. \<open>sources\<close> is one
  object that every copy of \<open>out\<close> points to, so a write to it shows in the record returned.
\<close>




section \<open>Username lookup\<close>










section \<open>Risk scorers\<close>

text \<open>
  \<open>!dom.a?.length\<close> holds for a missing list and for an empty one;
  \<open>(dom.mx?.length || 0) > 0\<close> fails for both; \<open>!!dom.dmarc\<close> fails for \<open>undefined\<close>, \<open>null\<close> and
  the empty string.
\<close>

definition scoreDomainRisk :: "DomainLookup \<Rightarrow> RiskLevel" where
  "scoreDomainRisk dm =
     (if (case a_list dm of None \<Rightarrow> True | Some xs \<Rightarrow> length xs = 0) then high
      else
        let hasMX' = (case mx dm of None \<Rightarrow> 0 | Some ms \<Rightarrow> length ms) > 0;
            hasDMARC' = (case dmarc dm of None \<Rightarrow> False | Some s \<Rightarrow> s \<noteq> [])
        in if \<not> hasMX' \<or> \<not> hasDMARC' then medium else low)"

definition scoreEmailRisk :: "EmailLookup \<Rightarrow> RiskLevel" where
  "scoreEmailRisk e =
     (if \<not> hasMX e then high
      else if \<not> hasDMARC e then medium
      else low)"

section \<open>Notions used in the statements\<close>

text \<open>What a request is answered with, and what the resolver hands to the parser,
  whatever requests were issued before.\<close>

definition fetched :: "net \<Rightarrow> request \<Rightarrow> error + jsval" where
  "fetched net req = fst (fetchJSON net req [])"

definition doh_answer :: "net \<Rightarrow> string \<Rightarrow> string \<Rightarrow> jsval" where
  "doh_answer net name type = fst (dohResolve net name type [])"

text \<open>The seven requests of a domain lookup.\<close>

definition doh_requests :: "string \<Rightarrow> request list" where
  "doh_requests d =
     [DoH d ''A'', DoH d ''AAAA'', DoH d ''MX'', DoH d ''NS'', DoH d ''TXT'',
      DoH (''_dmarc.'' @ d) ''TXT'']"

definition domain_requests :: "string \<Rightarrow> request list" where
  "domain_requests d = doh_requests d @ [Rdap d]"



text \<open>The text between the first \<open>@\<close> of an address and the next one, or the end.\<close>

definition at_segment :: "string \<Rightarrow> string" where
  "at_segment e = takeWhile (\<lambda>c. c \<noteq> CHR ''@'') (tl (dropWhile (\<lambda>c. c \<noteq> CHR ''@'') e))"

text \<open>
  A call has failed when there was no answer, a status outside the success range, or a
  body that is not JSON. A DoH response is of the expected shape when the call failed, or
  the payload is \<open>null\<close>, or its \<open>Answer\<close> is missing or falsy, or its \<open>Answer\<close> is an array
  whose elements are neither \<open>null\<close> nor \<open>undefined\<close> and carry data that converts to text.
\<close>

definition failed :: "response \<Rightarrow> bool" where
  "failed r = (case r of Unreachable \<Rightarrow> True | Response ok body \<Rightarrow> (if ok then body = None else True))"




section \<open>Regular expressions: the first match\<close>















section \<open>Properties of the domain lookup\<close>

lemma fetchJSON_eq: "fetchJSON net req log = (fetched net req, log @ [req])"
  by (simp add: fetchJSON_def fetched_def)

lemma dohResolve_eq: "dohResolve net name type log = (doh_answer net name type, log @ [DoH name type])"
  by (simp add: dohResolve_def doh_answer_def fetchJSON_eq split: sum.splits)

lemma lookupDomain_eq:
  "lookupDomain net d log =
     (parseDomain d (doh_answer net d ''A'') (doh_answer net d ''AAAA'') (doh_answer net d ''MX'')
        (doh_answer net d ''NS'') (doh_answer net d ''TXT'') (doh_answer net (''_dmarc.'' @ d) ''TXT'')
        (case fetched net (Rdap d) of Inl _ \<Rightarrow> Null | Inr v \<Rightarrow> v),
      log @ domain_requests d)"
  by (simp add: lookupDomain_def dohResolve_eq fetchJSON_eq domain_requests_def doh_requests_def
      split: sum.splits)








lemma doh_answer_failed: "failed (net (DoH name type)) \<Longrightarrow> doh_answer net name type = Arr []"
  by (auto simp: failed_def doh_answer_def dohResolve_def fetchJSON_def
      split: response.splits if_splits option.splits)








lemma parseDomain_empty:
  "parseDomain d (Arr []) (Arr []) (Arr []) (Arr []) (Arr []) (Arr []) v =
     Inr \<lparr>domain = d, a_list = Some [], aaaa = Some [], mx = Some [], ns = Some [], txt = Some [],
          dmarc = None, spf = Some False, rdap = Some v\<rparr>"
  by (simp add: parseDomain_def bind_err_def parseData_def parseMX_def parseNS_def parseTXT_def)

lemma rdap_failed:
  "failed (net (Rdap d)) \<Longrightarrow> (case fetched net (Rdap d) of Inl _ \<Rightarrow> Null | Inr v \<Rightarrow> v) = Null"
  by (auto simp: failed_def fetched_def fetchJSON_def split: response.splits if_splits option.splits)

lemma lookupDomain_offline:
  "lookupDomain (\<lambda>q. Unreachable) d log =
     (Inr \<lparr>domain = d, a_list = Some [], aaaa = Some [], mx = Some [], ns = Some [],
           txt = Some [], dmarc = None, spf = Some False, rdap = Some Null\<rparr>,
      log @ domain_requests d)"
  by (simp add: lookupDomain_eq doh_answer_failed rdap_failed parseDomain_empty failed_def)





section \<open>Properties of the email lookup\<close>

lemma split_not_Nil: "split sep s \<noteq> []"
  by (induction s) auto

lemma split_hd: "hd (split sep s) = takeWhile (\<lambda>c. c \<noteq> sep) s"
  by (induction s) auto

lemma split_tl:
  "tl (split sep s) =
     (if sep \<in> set s then split sep (tl (dropWhile (\<lambda>c. c \<noteq> sep) s)) else [])"
  by (induction s) auto

lemma split_second:
  "(case split CHR ''@'' e of x # seg # rest \<Rightarrow> Some (g seg) | _ \<Rightarrow> None) =
     (if CHR ''@'' \<in> set e then Some (g (at_segment e)) else None)"
proof -
  obtain x xs where sp: "split CHR ''@'' e = x # xs"
    using split_not_Nil by (cases "split CHR ''@'' e") auto
  have xs: "xs = (if CHR ''@'' \<in> set e
                  then split CHR ''@'' (tl (dropWhile (\<lambda>c. c \<noteq> CHR ''@'') e)) else [])"
    using split_tl [of "CHR ''@''" e] sp by simp
  show ?thesis
  proof (cases "CHR ''@'' \<in> set e")
    case False
    with sp xs show ?thesis by simp
  next
    case True
    obtain y ys where sp2: "split CHR ''@'' (tl (dropWhile (\<lambda>c. c \<noteq> CHR ''@'') e)) = y # ys"
      using split_not_Nil by (cases "split CHR ''@'' (tl (dropWhile (\<lambda>c. c \<noteq> CHR ''@'') e))") auto
    have "y = at_segment e"
      using split_hd [of "CHR ''@''" "tl (dropWhile (\<lambda>c. c \<noteq> CHR ''@'') e)"] sp2
      by (simp add: at_segment_def)
    with True sp xs sp2 show ?thesis by simp
  qed
qed

lemma toLowerCase_Nil: "(toLowerCase s = []) = (s = [])"
  by (simp add: toLowerCase_def)

lemma commas_error: "commas rs = Inl e \<Longrightarrow> Inl e \<in> set rs"
  by (induction rs rule: commas.induct) (auto split: sum.splits)

lemma to_string_error: "to_string v = Inl e \<Longrightarrow> e = TypeError"
proof (induction v arbitrary: e rule: to_string.induct)
  case (6 xs)
  from commas_error [OF "6.prems" [simplified]]
  obtain x where "x \<in> set xs" "(if nullish x then Inr [] else to_string x) = Inl e"
    by auto
  with "6.IH" show ?case by (auto split: if_splits)
qed (auto split: if_splits)

lemma get_error: "get v k = Inl e \<Longrightarrow> e = TypeError"
  by (auto simp: get_def split: if_splits)

lemma as_array_error: "as_array v = Inl e \<Longrightarrow> e = TypeError"
  by (cases v) auto

lemma js_map_error: "js_map f xs = Inl e \<Longrightarrow> \<exists>x\<in>set xs. f x = Inl e"
  by (induction xs) (auto split: sum.splits)

lemma parseData_error: "parseData v = Inl e \<Longrightarrow> e = TypeError"
  by (auto simp: parseData_def split: sum.splits dest!: as_array_error js_map_error get_error)

lemma parseMX_error: "parseMX v = Inl e \<Longrightarrow> e = TypeError"
  by (auto simp: parseMX_def parseMXAnswer_def split: sum.splits
      dest!: as_array_error js_map_error dest: get_error to_string_error)

lemma parseNS_error: "parseNS v = Inl e \<Longrightarrow> e = TypeError"
  by (auto simp: parseNS_def split: sum.splits
      dest!: as_array_error js_map_error dest: get_error to_string_error)

lemma parseTXT_error: "parseTXT v = Inl e \<Longrightarrow> e = TypeError"
  by (auto simp: parseTXT_def split: sum.splits jsval.splits
      dest!: as_array_error js_map_error dest: get_error)

lemma parseDomain_error:
  "parseDomain d v1 v2 v3 v4 v5 v6 v7 = Inl e \<Longrightarrow> e = TypeError"
  by (auto simp: parseDomain_def bind_err_def split: sum.splits
      dest: parseData_error parseMX_error parseNS_error parseTXT_error)

lemma lookupDomain_error: "fst (lookupDomain net d log) = Inl e \<Longrightarrow> e = TypeError"
  by (auto simp: lookupDomain_eq dest: parseDomain_error)

lemma lookupDomain_log: "snd (lookupDomain net d log) = log @ domain_requests d"
  by (simp add: lookupDomain_eq)

lemma lookupEmail_invalid:
  "CHR ''@'' \<notin> set e \<or> trim (at_segment e) = [] \<Longrightarrow>
   lookupEmail net e log = (Inl InvalidEmail, log)"
  by (auto simp: lookupEmail_def split_second Let_def toLowerCase_Nil)

lemma lookupEmail_valid:
  "\<not> (CHR ''@'' \<notin> set e \<or> trim (at_segment e) = []) \<Longrightarrow>
   lookupEmail net e log =
     (case lookupDomain net (toLowerCase (trim (at_segment e))) log of
        (Inl x, log') \<Rightarrow> (Inl x, log')
      | (Inr dm, log') \<Rightarrow>
          (Inr \<lparr>email = e, emailDomain = toLowerCase (trim (at_segment e)),
                hasMX = ((case mx dm of None \<Rightarrow> 0 | Some ms \<Rightarrow> length ms) > 0),
                hasSPF = (spf dm = Some True),
                hasDMARC = (case dmarc dm of None \<Rightarrow> False | Some t \<Rightarrow> t \<noteq> []),
                dmarcPolicy =
                  (case dmarc dm of None \<Rightarrow> None
                   | Some t \<Rightarrow> if t \<noteq> [] then policy_exec t else None),
                txtSamples = map_option (take 5) (txt dm)\<rparr>,
           log'))"
  by (auto simp: lookupEmail_def split_second Let_def toLowerCase_Nil)

text \<open>
  C3, as the code has it. lookupEmail fails with the invalid-email failure exactly when the
  address has no \<open>@\<close> or the text between its first \<open>@\<close> and the next one (or the end) is
  blank, that is empty once trimmed. The rejection comes before any network call: the list
  of requests is left as it was. Every other address goes on to the domain lookup of the
  trimmed, lower-cased segment, which issues its seven requests.
\<close>

theorem lookupEmail_rejects_iff:
  "(fst (lookupEmail net e log) = Inl InvalidEmail \<longleftrightarrow>
      CHR ''@'' \<notin> set e \<or> trim (at_segment e) = []) \<and>
   (fst (lookupEmail net e log) = Inl InvalidEmail \<longrightarrow> snd (lookupEmail net e log) = log) \<and>
   (fst (lookupEmail net e log) \<noteq> Inl InvalidEmail \<longrightarrow>
      snd (lookupEmail net e log) = snd (lookupDomain net (toLowerCase (trim (at_segment e))) log) \<and>
      snd (lookupEmail net e log) = log @ domain_requests (toLowerCase (trim (at_segment e))))"
proof (cases "CHR ''@'' \<notin> set e \<or> trim (at_segment e) = []")
  case True
  then show ?thesis by (simp add: lookupEmail_invalid)
next
  case False
  let ?d = "toLowerCase (trim (at_segment e))"
  obtain r log' where ld: "lookupDomain net ?d log = (r, log')"
    by (cases "lookupDomain net ?d log")
  have log': "log' = log @ domain_requests ?d"
    using lookupDomain_log [of net ?d log] ld by simp
  have "fst (lookupEmail net e log) \<noteq> Inl InvalidEmail"
  proof (cases r)
    case (Inl x)
    then have "x = TypeError" using lookupDomain_error [of net ?d log x] ld by simp
    with Inl ld False show ?thesis by (simp add: lookupEmail_valid)
  next
    case (Inr dm)
    with ld False show ?thesis by (simp add: lookupEmail_valid)
  qed
  moreover have "snd (lookupEmail net e log) = log'"
    using ld False by (cases r) (simp_all add: lookupEmail_valid)
  ultimately show ?thesis using False ld log' by simp
qed

theorem lookupEmail_rejects_iff_witness:
  "lookupEmail (\<lambda>q. Unreachable) ''not-an-email'' [] = (Inl InvalidEmail, []) \<and>
   snd (lookupEmail (\<lambda>q. Unreachable) ''x@example.com'' []) = domain_requests ''example.com''"
proof -
  have a: "CHR ''@'' \<notin> set ''not-an-email'' \<or> trim (at_segment ''not-an-email'') = []"
    by simp
  have b: "\<not> (CHR ''@'' \<notin> set ''x@example.com'' \<or> trim (at_segment ''x@example.com'') = [])"
    by code_simp
  have c: "toLowerCase (trim (at_segment ''x@example.com'')) = ''example.com''"
    by code_simp
  from lookupEmail_rejects_iff [of "\<lambda>q. Unreachable" "''not-an-email''" "[]"] a
  have "lookupEmail (\<lambda>q. Unreachable) ''not-an-email'' [] = (Inl InvalidEmail, [])"
    by (simp add: prod_eq_iff)
  moreover from lookupEmail_rejects_iff [of "\<lambda>q. Unreachable" "''x@example.com''" "[]"] b c
  have "snd (lookupEmail (\<lambda>q. Unreachable) ''x@example.com'' []) = domain_requests ''example.com''"
    by (simp add: lookupDomain_log)
  ultimately show ?thesis by simp
qed

text \<open>
  C3, as stated, fails on \<open>user@\<close>: the address has an \<open>@\<close>, the split has a second segment,
  and the lookup is rejected all the same, since the segment is empty.
\<close>

theorem lookupEmail_rejects_blank_domain:
  "CHR ''@'' \<in> set ''user@'' \<and> lookupEmail (\<lambda>q. Unreachable) ''user@'' [] = (Inl InvalidEmail, [])"
  by code_simp

lemma single_at_segment:
  assumes "count_list e CHR ''@'' = 1"
  shows "at_segment e = tl (dropWhile (\<lambda>c. c \<noteq> CHR ''@'') e)"
proof -
  let ?tw = "takeWhile (\<lambda>c. c \<noteq> CHR ''@'') e" and ?dw = "dropWhile (\<lambda>c. c \<noteq> CHR ''@'') e"
  have tw: "count_list ?tw CHR ''@'' = 0"
    by (auto simp: count_list_0_iff dest: set_takeWhileD)
  have "count_list e CHR ''@'' = count_list ?tw CHR ''@'' + count_list ?dw CHR ''@''"
    by (metis count_list_append takeWhile_dropWhile_id)
  with assms tw have dw: "count_list ?dw CHR ''@'' = 1" by simp
  then obtain rest where r: "?dw = CHR ''@'' # rest"
    by (cases ?dw) (auto simp: dropWhile_eq_Cons_conv)
  with dw have "CHR ''@'' \<notin> set rest" by (simp add: count_list_0_iff)
  then have "takeWhile (\<lambda>c. c \<noteq> CHR ''@'') rest = rest" by auto
  with r show ?thesis by (simp add: at_segment_def)
qed

text \<open>
  C6, as the code has it. For every address lookupEmail accepts, the domain field is the
  text between the first \<open>@\<close> and the next \<open>@\<close> (or the end of the address), trimmed and
  lower-cased; for an address with exactly one \<open>@\<close> this is the text after the \<open>@\<close>, trimmed
  and lower-cased.
\<close>

theorem lookupEmail_domain:
  "fst (lookupEmail net e log) = Inr r \<Longrightarrow>
   emailDomain r = toLowerCase (trim (at_segment e)) \<and>
   (count_list e CHR ''@'' = 1 \<longrightarrow>
      emailDomain r = toLowerCase (trim (tl (dropWhile (\<lambda>c. c \<noteq> CHR ''@'') e))))"
proof -
  assume h: "fst (lookupEmail net e log) = Inr r"
  have v: "\<not> (CHR ''@'' \<notin> set e \<or> trim (at_segment e) = [])"
  proof
    assume "CHR ''@'' \<notin> set e \<or> trim (at_segment e) = []"
    then have "lookupEmail net e log = (Inl InvalidEmail, log)"
      by (rule lookupEmail_invalid)
    with h show False by simp
  qed
  have "emailDomain r = toLowerCase (trim (at_segment e))"
    using h by (auto simp: lookupEmail_valid [OF v] split: prod.splits sum.splits)
  then show ?thesis by (simp add: single_at_segment)
qed

theorem lookupEmail_domain_witness:
  "\<exists>r. fst (lookupEmail (\<lambda>q. Unreachable) ''Alice@ Example.COM '' []) = Inr r \<and>
       emailDomain r = ''example.com'' \<and>
       emailDomain r = toLowerCase (trim (tl (dropWhile (\<lambda>c. c \<noteq> CHR ''@'') ''Alice@ Example.COM '')))"
proof -
  have v: "\<not> (CHR ''@'' \<notin> set ''Alice@ Example.COM '' \<or> trim (at_segment ''Alice@ Example.COM '') = [])"
    by code_simp
  have d: "toLowerCase (trim (at_segment ''Alice@ Example.COM '')) = ''example.com''"
    by code_simp
  have h: "fst (lookupEmail (\<lambda>q. Unreachable) ''Alice@ Example.COM '' []) =
     Inr \<lparr>email = ''Alice@ Example.COM '', emailDomain = ''example.com'', hasMX = False,
          hasSPF = False, hasDMARC = False, dmarcPolicy = None, txtSamples = Some []\<rparr>"
    by (simp add: lookupEmail_valid [OF v] d lookupDomain_offline split: prod.splits)
  have one: "count_list ''Alice@ Example.COM '' CHR ''@'' = 1"
    by simp
  from lookupEmail_domain [OF h, THEN conjunct2, THEN mp, OF one]
  have "''example.com'' =
      toLowerCase (trim (tl (dropWhile (\<lambda>c. c \<noteq> CHR ''@'') ''Alice@ Example.COM '')))"
    by simp
  with h show ?thesis by simp
qed

text \<open>
  C6, as stated, fails on \<open>a@b@c\<close>: the text after the first \<open>@\<close> is \<open>b@c\<close>, and the domain
  field is \<open>b\<close>.
\<close>

theorem lookupEmail_domain_second_at:
  "map_sum id emailDomain (fst (lookupEmail (\<lambda>q. Unreachable) ''a@b@c'' [])) = Inr ''b'' \<and>
   toLowerCase (trim (tl (dropWhile (\<lambda>c. c \<noteq> CHR ''@'') ''a@b@c''))) = ''b@c''"
  by code_simp


text \<open>
  C7. On the DMARC value \<open>v=DMARC1; sp=none; p=reject\<close> the policy lookupEmail reports is
  \<open>none\<close>, the value of the \<open>sp=\<close> tag: the pattern \<open>/p=([^;\s]+)/i\<close> is not anchored to the
  start of a tag, and its first match lies inside \<open>sp=none\<close>. The value of the \<open>p=\<close> tag is
  \<open>reject\<close>. On the value \<open>v=DMARC1; p=reject; rua=mailto:x@example.com\<close> the policy is
  \<open>reject\<close>.
\<close>

theorem lookupEmail_policy_from_sp_tag:
  "map_sum id (\<lambda>r. (hasDMARC r, dmarcPolicy r))
     (fst (lookupEmail
        (\<lambda>q. if q = DoH ''_dmarc.example.com'' ''TXT''
              then Response True
                     (Some (Obj [(''Answer'',
                        Arr [Obj [(''data'', Str ''v=DMARC1; sp=none; p=reject'')]])]))
              else Unreachable)
        ''postmaster@example.com'' [])) =
   Inr (True, Some ''none'') \<and>
   policy_exec ''v=DMARC1; p=reject; rua=mailto:x@example.com'' = Some ''reject''"
proof -
  let ?net = "\<lambda>q. if q = DoH ''_dmarc.example.com'' ''TXT''
              then Response True
                     (Some (Obj [(''Answer'',
                        Arr [Obj [(''data'', Str ''v=DMARC1; sp=none; p=reject'')]])]))
              else Unreachable"
  have v: "\<not> (CHR ''@'' \<notin> set ''postmaster@example.com'' \<or>
              trim (at_segment ''postmaster@example.com'') = [])"
    by code_simp
  have d: "toLowerCase (trim (at_segment ''postmaster@example.com'')) = ''example.com''"
    by code_simp
  have ld: "fst (lookupDomain ?net ''example.com'' []) =
     Inr \<lparr>domain = ''example.com'', a_list = Some [], aaaa = Some [], mx = Some [], ns = Some [],
          txt = Some [], dmarc = Some ''v=DMARC1; sp=none; p=reject'', spf = Some False,
          rdap = Some Null\<rparr>"
    by code_simp
  have pol: "policy_exec ''v=DMARC1; sp=none; p=reject'' = Some ''none''"
    by code_simp
  obtain log' where e: "lookupDomain ?net ''example.com'' [] =
     (Inr \<lparr>domain = ''example.com'', a_list = Some [], aaaa = Some [], mx = Some [], ns = Some [],
           txt = Some [], dmarc = Some ''v=DMARC1; sp=none; p=reject'', spf = Some False,
           rdap = Some Null\<rparr>, log')"
    using ld by (cases "lookupDomain ?net ''example.com'' []") simp
  have ok: "policy_exec ''v=DMARC1; p=reject; rua=mailto:x@example.com'' = Some ''reject''"
    by code_simp
  from ok show ?thesis
    by (simp add: lookupEmail_valid [OF v] d pol e del: policy_exec.simps)
qed


section \<open>Properties of the IP lookup\<close>













section \<open>Properties of the username lookup\<close>












section \<open>Properties of the risk scorers\<close>

text \<open>
  C9. For every DomainLookup record, scoreDomainRisk returns high when the a list is empty
  or absent; otherwise medium when the mx list is empty or absent or there is no dmarc value
  (the field is absent, null or the empty text); otherwise low. The function is total: it
  yields one of the three levels for every record, also for one with every optional field
  absent.
\<close>

theorem scoreDomainRisk_cases:
  "scoreDomainRisk dm =
     (if a_list dm = None \<or> a_list dm = Some [] then high
      else if mx dm = None \<or> mx dm = Some [] \<or> dmarc dm = None \<or> dmarc dm = Some []
        then medium
      else low)"
  by (auto simp add: scoreDomainRisk_def Let_def split: option.splits)

theorem scoreDomainRisk_cases_witness:
  "scoreDomainRisk
     \<lparr>domain = ''example.com'', a_list = None, aaaa = None, mx = None, ns = None, txt = None,
      dmarc = None, spf = None, rdap = None\<rparr> = high \<and>
   scoreDomainRisk
     \<lparr>domain = ''example.com'', a_list = Some [Str ''192.0.2.1''], aaaa = Some [], mx = Some [],
      ns = Some [], txt = Some [], dmarc = Some ''v=DMARC1; p=none'', spf = Some False,
      rdap = Some Null\<rparr> = medium \<and>
   scoreDomainRisk
     \<lparr>domain = ''example.com'', a_list = Some [Str ''192.0.2.1''], aaaa = Some [],
      mx = Some [\<lparr>priority = 10, exchange = ''mail.example.com''\<rparr>], ns = Some [],
      txt = Some [], dmarc = Some ''v=DMARC1; p=none'', spf = Some False,
      rdap = Some Null\<rparr> = low"
  by (simp add: scoreDomainRisk_cases)

text \<open>
  C10. Two EmailLookup records that agree on hasMX and hasDMARC get the same risk level,
  whatever their other fields (email, domain, hasSPF, dmarcPolicy, txtSamples) hold.
\<close>

theorem scoreEmailRisk_depends_only_on_mx_dmarc:
  "hasMX e1 = hasMX e2 \<Longrightarrow> hasDMARC e1 = hasDMARC e2 \<Longrightarrow>
   scoreEmailRisk e1 = scoreEmailRisk e2"
  by (simp add: scoreEmailRisk_def)

theorem scoreEmailRisk_depends_only_on_mx_dmarc_witness:
  "scoreEmailRisk
     \<lparr>email = ''a@example.com'', emailDomain = ''example.com'', hasMX = True, hasSPF = True,
      hasDMARC = False, dmarcPolicy = Some ''reject'', txtSamples = Some [''v=spf1 -all'']\<rparr>
   = scoreEmailRisk
     \<lparr>email = ''b@example.org'', emailDomain = ''example.org'', hasMX = True, hasSPF = False,
      hasDMARC = False, dmarcPolicy = None, txtSamples = None\<rparr>"
  by (rule scoreEmailRisk_depends_only_on_mx_dmarc) simp_all

end
